theory Spec2Isabelle
  imports Main
begin

section \<open>The collaborators of the adapter\<close>

text \<open>
  \<^verbatim>\<open>s3_cache.py\<close> defines one class, \<^verbatim>\<open>S3Cache\<close>, whose methods call three
  libraries: \<^verbatim>\<open>io.BytesIO\<close>, \<^verbatim>\<open>pickle\<close> and a boto3 S3 client. None of them is
  part of the repository, so each is modelled here as far as the methods use it.
  Raising is a value: a call returns \<open>Inl e\<close> when it raises the exception \<open>e\<close>.
\<close>

type_synonym bytes = "char list"

datatype exn =
    TypeError
  | ValueError
  | ParamValidationError
  | ClientError
  | EndpointConnectionError
  | PicklingError
  | UnpicklingError
  | EOFError

subsection \<open>io.BytesIO\<close>

text \<open>An in-memory file: its contents and the position of the next read or write.\<close>

record bytesio =
  buf :: bytes
  pos :: nat

definition BytesIO :: bytesio where
  "BytesIO = \<lparr>buf = [], pos = 0\<rparr>"

definition seek :: "bytesio \<Rightarrow> nat \<Rightarrow> bytesio" where
  "seek f n = f\<lparr>pos := n\<rparr>"

text \<open>Writing overwrites from the position on, after padding a short buffer with zero bytes.\<close>

definition bytesio_write :: "bytesio \<Rightarrow> bytes \<Rightarrow> bytesio" where
  "bytesio_write f d =
     (let p = pos f;
          padded = buf f @ replicate (p - length (buf f)) (CHR 0x00)
      in f\<lparr>buf := take p padded @ d @ drop (p + length d) padded, pos := p + length d\<rparr>)"

text \<open>Reading returns everything from the position to the end.\<close>

definition bytesio_read :: "bytesio \<Rightarrow> bytes" where
  "bytesio_read f = drop (pos f) (buf f)"

subsection \<open>pickle\<close>

text \<open>
  The serializer is a parameter: \<open>dumps\<close> encodes a value or raises, \<open>loads\<close> decodes
  bytes or raises. \<^verbatim>\<open>pickle.dump(value, file)\<close> writes the encoding at the file's
  position; \<^verbatim>\<open>pickle.load(file)\<close> decodes what it reads from the file's position.
\<close>

record 'v pickle =
  dumps :: "'v \<Rightarrow> exn + bytes"
  loads :: "bytes \<Rightarrow> exn + 'v"

definition pickle_dump :: "'v pickle \<Rightarrow> 'v \<Rightarrow> bytesio \<Rightarrow> exn + bytesio" where
  "pickle_dump P v f = (case dumps P v of Inl e \<Rightarrow> Inl e | Inr d \<Rightarrow> Inr (bytesio_write f d))"

definition pickle_load :: "'v pickle \<Rightarrow> bytesio \<Rightarrow> exn + 'v" where
  "pickle_load P f = loads P (bytesio_read f)"

subsection \<open>logging\<close>

datatype log_record = Warn string | LogException exn

subsection \<open>The storage service and the boto3 client\<close>

text \<open>
  The world outside the adapter: the objects of the storage service, by bucket and
  object key; the requests the client has sent, oldest first; a fault schedule, which
  says for the n-th request whether the service, the network or the credentials make it
  raise; the requests the client accepts; and the records handed to \<^verbatim>\<open>logging\<close>.

  A request is one operation of the client, with botocore's retries inside it. Before
  it sends anything the client validates the parameters: botocore raises
  \<open>ParamValidationError\<close> for an empty \<^verbatim>\<open>Key\<close> and for a bucket name that is
  neither a valid name nor an access-point ARN. What is accepted is fixed when the
  client is built (by botocore's service model and by \<^verbatim>\<open>extra_s3_args\<close>), so it is
  a field that no operation changes.
\<close>

datatype request =
    HeadObject string string
  | GetObject string string
  | PutObject string string bytes
  | DeleteObject string string

fun request_target :: "request \<Rightarrow> string \<times> string" where
  "request_target (HeadObject b k) = (b, k)"
| "request_target (GetObject b k) = (b, k)"
| "request_target (PutObject b k d) = (b, k)"
| "request_target (DeleteObject b k) = (b, k)"

record world =
  objects :: "string \<times> string \<rightharpoonup> bytes"
  requests :: "request list"
  faults :: "nat \<Rightarrow> exn option"
  accepts :: "request \<Rightarrow> bool"
  logged :: "log_record list"

text \<open>
  Sending a request records it, then either raises the scheduled fault or carries the
  request out. Reading a missing object raises \<open>ClientError\<close> (a 404); a successful
  read returns the object's bytes, a successful head, put or delete returns nothing.
\<close>

definition send :: "request \<Rightarrow> world \<Rightarrow> (exn + bytes) \<times> world" where
  "send r w =
     (let w' = w\<lparr>requests := requests w @ [r]\<rparr> in
      case faults w (length (requests w)) of
        Some e \<Rightarrow> (Inl e, w')
      | None \<Rightarrow>
         (case r of
            HeadObject b k \<Rightarrow>
              (case objects w (b, k) of None \<Rightarrow> (Inl ClientError, w') | Some d \<Rightarrow> (Inr [], w'))
          | GetObject b k \<Rightarrow>
              (case objects w (b, k) of None \<Rightarrow> (Inl ClientError, w') | Some d \<Rightarrow> (Inr d, w'))
          | PutObject b k d \<Rightarrow> (Inr [], w'\<lparr>objects := (objects w)((b, k) \<mapsto> d)\<rparr>)
          | DeleteObject b k \<Rightarrow> (Inr [], w'\<lparr>objects := (objects w)((b, k) := None)\<rparr>)))"

text \<open>
  A client operation: a request that the client does not accept raises
  \<open>ParamValidationError\<close> and nothing is sent; an accepted one is sent.
\<close>

definition client_request :: "request \<Rightarrow> world \<Rightarrow> (exn + bytes) \<times> world" where
  "client_request r w = (if accepts w r then send r w else (Inl ParamValidationError, w))"

text \<open>
  A Python call passes positional arguments and keyword arguments. The arguments the
  adapter passes are strings and one file object.
\<close>

datatype pyval = PStr string | PFile bytesio

type_synonym kwargs = "(string \<times> pyval) list"

text \<open>
  Binding a call to a parameter list, as Python does for a \<^verbatim>\<open>def\<close>: positional
  arguments fill the parameters in order, keyword arguments by name; too many
  positional arguments, a parameter given twice and an unknown keyword raise
  \<open>TypeError\<close>.
\<close>

definition bind :: "string list \<Rightarrow> pyval list \<Rightarrow> kwargs \<Rightarrow> exn + kwargs" where
  "bind params args kw =
     (if length args > length params then Inl TypeError
      else if \<not> distinct (map fst kw) then Inl TypeError
      else if list_ex (\<lambda>n. n \<notin> set (drop (length args) params)) (map fst kw) then Inl TypeError
      else Inr (zip params args @ kw))"

text \<open>
  \<^verbatim>\<open>head_object\<close> and \<^verbatim>\<open>delete_object\<close> are generated client methods. botocore
  defines each as \<^verbatim>\<open>_api_call(self, *args, **kwargs)\<close>, which starts with
  \<^verbatim>\<open>if args: raise TypeError("...() only accepts keyword arguments.")\<close>, checks
  that the required keyword parameters \<^verbatim>\<open>Bucket\<close> and \<^verbatim>\<open>Key\<close> are there and are
  strings, and then runs the operation, which validates their values before it sends
  the request.
\<close>

definition api_call ::
  "(string \<Rightarrow> string \<Rightarrow> request) \<Rightarrow> pyval list \<Rightarrow> kwargs \<Rightarrow> world \<Rightarrow> (exn + unit) \<times> world" where
  "api_call operation args kw w =
     (if args \<noteq> [] then (Inl TypeError, w)
      else case (map_of kw ''Bucket'', map_of kw ''Key'') of
        (Some (PStr b), Some (PStr k)) \<Rightarrow>
          (case client_request (operation b k) w of
             (Inl e, w') \<Rightarrow> (Inl e, w')
           | (Inr _, w') \<Rightarrow> (Inr (), w'))
      | _ \<Rightarrow> (Inl ParamValidationError, w))"

definition head_object :: "pyval list \<Rightarrow> kwargs \<Rightarrow> world \<Rightarrow> (exn + unit) \<times> world" where
  "head_object = api_call HeadObject"

definition delete_object :: "pyval list \<Rightarrow> kwargs \<Rightarrow> world \<Rightarrow> (exn + unit) \<times> world" where
  "delete_object = api_call DeleteObject"

text \<open>
  \<^verbatim>\<open>download_fileobj(Bucket, Key, Fileobj, ExtraArgs=None, Callback=None, Config=None)\<close>
  and
  \<^verbatim>\<open>upload_fileobj(Fileobj, Bucket, Key, ExtraArgs=None, Callback=None, Config=None)\<close>
  are ordinary methods that boto3 adds to the S3 client, so they take positional
  arguments. They hand the transfer to the transfer manager, which runs client
  operations and re-raises what they raise. A download is a \<^verbatim>\<open>HeadObject\<close>, which
  reads the object's size, followed by a \<^verbatim>\<open>GetObject\<close>; it writes the object's
  bytes to the file object and returns the file as written. An upload is a
  \<^verbatim>\<open>PutObject\<close> of what it reads from the file object's position. (A transfer of
  8 MiB or more is split into parts by the transfer manager; it is modelled as the
  same operations.)
\<close>

definition download_fileobj :: "pyval list \<Rightarrow> kwargs \<Rightarrow> world \<Rightarrow> (exn + bytesio) \<times> world" where
  "download_fileobj args kw w =
     (case bind [''Bucket'', ''Key'', ''Fileobj'', ''ExtraArgs'', ''Callback'', ''Config''] args kw of
        Inl e \<Rightarrow> (Inl e, w)
      | Inr bound \<Rightarrow>
         (case (map_of bound ''Bucket'', map_of bound ''Key'', map_of bound ''Fileobj'') of
            (Some (PStr b), Some (PStr k), Some (PFile f)) \<Rightarrow>
              (case client_request (HeadObject b k) w of
                 (Inl e, w') \<Rightarrow> (Inl e, w')
               | (Inr _, w') \<Rightarrow>
                  (case client_request (GetObject b k) w' of
                     (Inl e, w'') \<Rightarrow> (Inl e, w'')
                   | (Inr d, w'') \<Rightarrow> (Inr (bytesio_write f d), w'')))
          | (Some (PStr b), Some (PStr k), Some _) \<Rightarrow> (Inl ValueError, w)
          | (Some _, Some _, Some _) \<Rightarrow> (Inl ParamValidationError, w)
          | _ \<Rightarrow> (Inl TypeError, w)))"

definition upload_fileobj :: "pyval list \<Rightarrow> kwargs \<Rightarrow> world \<Rightarrow> (exn + unit) \<times> world" where
  "upload_fileobj args kw w =
     (case bind [''Fileobj'', ''Bucket'', ''Key'', ''ExtraArgs'', ''Callback'', ''Config''] args kw of
        Inl e \<Rightarrow> (Inl e, w)
      | Inr bound \<Rightarrow>
         (case (map_of bound ''Bucket'', map_of bound ''Key'', map_of bound ''Fileobj'') of
            (Some (PStr b), Some (PStr k), Some (PFile f)) \<Rightarrow>
              (case client_request (PutObject b k (bytesio_read f)) w of
                 (Inl e, w') \<Rightarrow> (Inl e, w')
               | (Inr _, w') \<Rightarrow> (Inr (), w'))
          | (Some (PStr b), Some (PStr k), Some _) \<Rightarrow> (Inl ValueError, w)
          | (Some _, Some _, Some _) \<Rightarrow> (Inl ParamValidationError, w)
          | _ \<Rightarrow> (Inl TypeError, w)))"

section \<open>S3Cache\<close>

text \<open>
  The fields \<^verbatim>\<open>__init__\<close> sets. The client it builds is stateless on the Python side;
  what its calls reach is the \<open>world\<close>, which every method takes and returns.
\<close>

record s3cache =
  default_timeout :: int
  bucket_name :: string
  key_prefix :: string

definition S3Cache :: "string \<Rightarrow> string \<Rightarrow> int \<Rightarrow> s3cache" where
  "S3Cache bucket prefix timeout =
     \<lparr>default_timeout = timeout, bucket_name = bucket, key_prefix = prefix\<rparr>"

text \<open>\<^verbatim>\<open>_get_full_key\<close>: the f-string \<^verbatim>\<open>f"{self.key_prefix}{key}"\<close>.\<close>

definition get_full_key :: "s3cache \<Rightarrow> string \<Rightarrow> string" where
  "get_full_key self key = key_prefix self @ key"

text \<open>\<^verbatim>\<open>_key_exists\<close>: \<^verbatim>\<open>head_object(Bucket=..., Key=...)\<close>, any exception read as False.\<close>

definition key_exists :: "s3cache \<Rightarrow> string \<Rightarrow> world \<Rightarrow> bool \<times> world" where
  "key_exists self key w =
     (case head_object []
             [(''Bucket'', PStr (bucket_name self)), (''Key'', PStr (get_full_key self key))] w of
        (Inl e, w') \<Rightarrow> (False, w')
      | (Inr _, w') \<Rightarrow> (True, w'))"

text \<open>
  \<^verbatim>\<open>get\<close>: \<open>Inr None\<close> is the Python \<^verbatim>\<open>None\<close>, \<open>Inr (Some v)\<close> the unpickled value,
  \<open>Inl e\<close> an exception that leaves the method. The \<^verbatim>\<open>except\<close> clause covers the
  download only: \<^verbatim>\<open>pickle.load\<close> runs in the \<^verbatim>\<open>else\<close> clause of the \<^verbatim>\<open>try\<close>.
  The warning is a plain string literal, not an f-string.
\<close>

definition get :: "'v pickle \<Rightarrow> s3cache \<Rightarrow> string \<Rightarrow> world \<Rightarrow> (exn + 'v option) \<times> world" where
  "get P self key w =
     (case key_exists self key w of
        (False, w1) \<Rightarrow> (Inr None, w1)
      | (True, w1) \<Rightarrow>
         (let value_file = BytesIO in
          case download_fileobj
                 [PStr (bucket_name self), PStr (get_full_key self key), PFile value_file] [] w1 of
            (Inl e, w2) \<Rightarrow>
              (Inr None,
               w2\<lparr>logged := logged w2 @ [Warn ''Failed to get key {key}'', LogException e]\<rparr>)
          | (Inr value_file', w2) \<Rightarrow>
              (case pickle_load P (seek value_file' 0) of
                 Inl e \<Rightarrow> (Inl e, w2)
               | Inr v \<Rightarrow> (Inr (Some v), w2))))"

text \<open>\<^verbatim>\<open>delete\<close>: the bucket and the key go to \<^verbatim>\<open>delete_object\<close> positionally.\<close>

definition delete :: "s3cache \<Rightarrow> string \<Rightarrow> world \<Rightarrow> bool \<times> world" where
  "delete self key w =
     (case key_exists self key w of
        (False, w1) \<Rightarrow> (False, w1)
      | (True, w1) \<Rightarrow>
         (case delete_object [PStr (bucket_name self), PStr (get_full_key self key)] [] w1 of
            (Inl e, w2) \<Rightarrow>
              (False,
               w2\<lparr>logged := logged w2 @ [Warn ''Failed to delete key {key}'', LogException e]\<rparr>)
          | (Inr _, w2) \<Rightarrow> (True, w2)))"

text \<open>
  \<^verbatim>\<open>set\<close>: \<^verbatim>\<open>pickle.dump\<close> runs before the \<^verbatim>\<open>try\<close>, so its exception leaves the
  method. The \<^verbatim>\<open>timeout\<close> argument (\<^verbatim>\<open>None\<close> or a number) is not read.
\<close>

definition set_value ::
  "'v pickle \<Rightarrow> s3cache \<Rightarrow> string \<Rightarrow> 'v \<Rightarrow> int option \<Rightarrow> world \<Rightarrow> (exn + bool) \<times> world" where
  "set_value P self key v timeout w =
     (let value_file = BytesIO in
      case pickle_dump P v value_file of
        Inl e \<Rightarrow> (Inl e, w)
      | Inr value_file' \<Rightarrow>
         (case upload_fileobj
                 [PFile (seek value_file' 0), PStr (bucket_name self), PStr (get_full_key self key)]
                 [] w of
            (Inl e, w1) \<Rightarrow>
              (Inr False,
               w1\<lparr>logged := logged w1 @ [Warn ''Error while setting key {key}'', LogException e]\<rparr>)
          | (Inr _, w1) \<Rightarrow> (Inr True, w1)))"

text \<open>\<^verbatim>\<open>add\<close>: the probe, then \<^verbatim>\<open>set\<close> with the same timeout.\<close>

definition add ::
  "'v pickle \<Rightarrow> s3cache \<Rightarrow> string \<Rightarrow> 'v \<Rightarrow> int option \<Rightarrow> world \<Rightarrow> (exn + bool) \<times> world" where
  "add P self key v timeout w =
     (case key_exists self key w of
        (True, w1) \<Rightarrow> (Inr False, w1)
      | (False, w1) \<Rightarrow> set_value P self key v timeout w1)"

text \<open>
  \<^verbatim>\<open>clear\<close> is declared \<^verbatim>\<open>def clear(self, key: str)\<close>: it takes a key, which
  it does not read (the annotation is not enforced), and returns False.
\<close>

definition clear :: "s3cache \<Rightarrow> 'k \<Rightarrow> world \<Rightarrow> bool \<times> world" where
  "clear self key w = (False, w)"

text \<open>
  A call \<^verbatim>\<open>cache.clear(*args, **kw)\<close>: Python binds the arguments to the one
  parameter \<^verbatim>\<open>key\<close>, which has no default, and raises \<open>TypeError\<close> when it is
  left without a value; only then does the body run.
\<close>

definition call_clear :: "s3cache \<Rightarrow> pyval list \<Rightarrow> kwargs \<Rightarrow> world \<Rightarrow> (exn + bool) \<times> world" where
  "call_clear self args kw w =
     (case bind [''key''] args kw of
        Inl e \<Rightarrow> (Inl e, w)
      | Inr bound \<Rightarrow>
         (case map_of bound ''key'' of
            None \<Rightarrow> (Inl TypeError, w)
          | Some key \<Rightarrow> (case clear self key w of (r, w') \<Rightarrow> (Inr r, w'))))"

text \<open>
  \<^verbatim>\<open>has\<close>: the probe runs and the method ends without a \<^verbatim>\<open>return\<close>, so the caller
  gets \<^verbatim>\<open>None\<close> (here \<open>None\<close>; a returned boolean would be \<open>Some b\<close>).
\<close>

definition has :: "s3cache \<Rightarrow> string \<Rightarrow> world \<Rightarrow> bool option \<times> world" where
  "has self key w = (case key_exists self key w of (b, w') \<Rightarrow> (None, w'))"

section \<open>Concrete inputs\<close>

text \<open>
  A small serializer standing in for \<^verbatim>\<open>pickle\<close>: a string is encoded as the byte
  \<open>S\<close> followed by its characters, a lambda cannot be encoded (as in Python), and
  bytes that do not start with \<open>S\<close> cannot be decoded.
\<close>

datatype pyobj = PyStr string | PyLambda

fun toy_dumps :: "pyobj \<Rightarrow> exn + bytes" where
  "toy_dumps (PyStr s) = Inr (CHR ''S'' # s)"
| "toy_dumps PyLambda = Inl PicklingError"

fun toy_loads :: "bytes \<Rightarrow> exn + pyobj" where
  "toy_loads [] = Inl EOFError"
| "toy_loads (c # s) = (if c = CHR ''S'' then Inr (PyStr s) else Inl UnpicklingError)"

definition toy_pickle :: "pyobj pickle" where
  "toy_pickle = \<lparr>dumps = toy_dumps, loads = toy_loads\<rparr>"

text \<open>
  The validation of botocore's default client, for plain bucket names: the key has at
  least one character, and the bucket name has 1 to 255 characters, each a letter, a
  digit, a dot, a hyphen or an underscore.
\<close>

definition valid_bucket :: "string \<Rightarrow> bool" where
  "valid_bucket b =
     (1 \<le> length b \<and> length b \<le> 255
      \<and> list_all
           (\<lambda>c. c \<in> set ''abcdefghijklmnopqrstuvwxyzABCDEFGHIJKLMNOPQRSTUVWXYZ0123456789.-_'') b)"

definition botocore_accepts :: "request \<Rightarrow> bool" where
  "botocore_accepts r = (case request_target r of (b, k) \<Rightarrow> valid_bucket b \<and> k \<noteq> [])"

definition empty_world :: world where
  "empty_world =
     \<lparr>objects = Map.empty, requests = [], faults = (\<lambda>n. None), accepts = botocore_accepts,
      logged = []\<rparr>"

definition app1 :: s3cache where
  "app1 = S3Cache ''cache-bucket'' ''app1:'' 300"

text \<open>
  An adapter with an empty prefix: the empty cache key gives it an empty storage key,
  which the client rejects.
\<close>

definition bare :: s3cache where
  "bare = S3Cache ''cache-bucket'' [] 300"

text \<open>
  Worlds for the adapter of the specification's scenario (bucket \<open>cache-bucket\<close>,
  prefix \<open>app1:\<close>): one whose object holds bytes that do not decode, one whose object
  holds the encoding of \<open>old\<close>, and an empty one whose first request fails.
\<close>

definition corrupt_world :: world where
  "corrupt_world = empty_world\<lparr>objects := [(''cache-bucket'', ''app1:session-42'') \<mapsto> ''garbage'']\<rparr>"

definition stale_world :: world where
  "stale_world = empty_world\<lparr>objects := [(''cache-bucket'', ''app1:session-42'') \<mapsto> ''Sold'']\<rparr>"

definition flaky_world :: world where
  "flaky_world = empty_world\<lparr>faults := (\<lambda>n. if n = 0 then Some EndpointConnectionError else None)\<rparr>"

text \<open>An empty world whose second request fails.\<close>

definition failing_upload_world :: world where
  "failing_upload_world =
     empty_world\<lparr>faults := (\<lambda>n. if n = 1 then Some EndpointConnectionError else None)\<rparr>"

text \<open>The requests sent between two worlds.\<close>

definition issued :: "world \<Rightarrow> world \<Rightarrow> request list" where
  "issued w w' = drop (length (requests w)) (requests w')"

section \<open>What each client call of the adapter does\<close>

text \<open>
  The five calls the methods make, with the arguments as the methods pass them: the
  keyword call of \<^verbatim>\<open>head_object\<close> and the positional calls of the two transfer
  methods run client operations; the positional call of \<^verbatim>\<open>delete_object\<close> raises
  before any operation runs. With them, each method as a function of what the client
  accepts, of the fault schedule and of the stored objects.
\<close>

lemma head_object_keywords:
  "head_object [] [(''Bucket'', PStr b), (''Key'', PStr k)] w =
     (case client_request (HeadObject b k) w of
        (Inl e, w') \<Rightarrow> (Inl e, w') | (Inr x, w') \<Rightarrow> (Inr (), w'))"
  by (simp add: head_object_def api_call_def)

lemma delete_object_positional:
  "args \<noteq> [] \<Longrightarrow> delete_object args kw w = (Inl TypeError, w)"
  by (simp add: delete_object_def api_call_def)

lemma upload_fileobj_positional:
  "upload_fileobj [PFile f, PStr b, PStr k] [] w =
     (case client_request (PutObject b k (bytesio_read f)) w of
        (Inl e, w') \<Rightarrow> (Inl e, w') | (Inr x, w') \<Rightarrow> (Inr (), w'))"
  by (simp add: upload_fileobj_def bind_def)

lemma download_fileobj_positional:
  "download_fileobj [PStr b, PStr k, PFile f] [] w =
     (case client_request (HeadObject b k) w of
        (Inl e, w') \<Rightarrow> (Inl e, w')
      | (Inr x, w') \<Rightarrow>
         (case client_request (GetObject b k) w' of
            (Inl e, w'') \<Rightarrow> (Inl e, w'')
          | (Inr d, w'') \<Rightarrow> (Inr (bytesio_write f d), w'')))"
  by (simp add: download_fileobj_def bind_def)

lemma fresh_file_written:
  "seek (bytesio_write BytesIO d) 0 = \<lparr>buf = d, pos = 0\<rparr>"
  by (simp add: seek_def bytesio_write_def BytesIO_def)

lemma fresh_file_rewound:
  "bytesio_read (seek (bytesio_write BytesIO d) 0) = d"
  by (simp add: bytesio_read_def seek_def bytesio_write_def BytesIO_def)

lemma key_exists_eq:
  "key_exists self key w =
     (if accepts w (HeadObject (bucket_name self) (get_full_key self key))
      then (faults w (length (requests w)) = None
              \<and> objects w (bucket_name self, get_full_key self key) \<noteq> None,
            w\<lparr>requests := requests w @ [HeadObject (bucket_name self) (get_full_key self key)]\<rparr>)
      else (False, w))"
  by (auto simp: key_exists_def head_object_keywords client_request_def send_def Let_def
        split: option.splits)

lemma set_value_eq:
  "set_value P self key v timeout w =
     (case dumps P v of
        Inl e \<Rightarrow> (Inl e, w)
      | Inr d \<Rightarrow>
         (if \<not> accepts w (PutObject (bucket_name self) (get_full_key self key) d)
          then (Inr False,
                w\<lparr>logged := logged w
                     @ [Warn ''Error while setting key {key}'', LogException ParamValidationError]\<rparr>)
          else
            (case faults w (length (requests w)) of
               Some e \<Rightarrow>
                 (Inr False,
                  w\<lparr>requests := requests w
                       @ [PutObject (bucket_name self) (get_full_key self key) d],
                    logged := logged w @ [Warn ''Error while setting key {key}'', LogException e]\<rparr>)
             | None \<Rightarrow>
                 (Inr True,
                  w\<lparr>requests := requests w
                       @ [PutObject (bucket_name self) (get_full_key self key) d],
                    objects := (objects w)((bucket_name self, get_full_key self key) \<mapsto> d)\<rparr>))))"
  by (simp add: set_value_def pickle_dump_def upload_fileobj_positional fresh_file_rewound
        client_request_def send_def Let_def split: sum.splits option.splits)

lemma get_eq:
  "get P self key w =
     (let b = bucket_name self; k = get_full_key self key; n = length (requests w);
          h = HeadObject b k; g = GetObject b k in
      if \<not> accepts w h then (Inr None, w)
      else if faults w n \<noteq> None \<or> objects w (b, k) = None
      then (Inr None, w\<lparr>requests := requests w @ [h]\<rparr>)
      else
        (case faults w (Suc n) of
           Some e \<Rightarrow>
             (Inr None,
              w\<lparr>requests := requests w @ [h, h],
                logged := logged w @ [Warn ''Failed to get key {key}'', LogException e]\<rparr>)
         | None \<Rightarrow>
            (if \<not> accepts w g
             then (Inr None,
                   w\<lparr>requests := requests w @ [h, h],
                     logged := logged w
                       @ [Warn ''Failed to get key {key}'', LogException ParamValidationError]\<rparr>)
             else
               (case faults w (Suc (Suc n)) of
                  Some e \<Rightarrow>
                    (Inr None,
                     w\<lparr>requests := requests w @ [h, h, g],
                       logged := logged w @ [Warn ''Failed to get key {key}'', LogException e]\<rparr>)
                | None \<Rightarrow>
                   (case loads P (the (objects w (b, k))) of
                      Inl e \<Rightarrow> (Inl e, w\<lparr>requests := requests w @ [h, h, g]\<rparr>)
                    | Inr v \<Rightarrow> (Inr (Some v), w\<lparr>requests := requests w @ [h, h, g]\<rparr>))))))"
  by (auto simp: get_def key_exists_eq download_fileobj_positional pickle_load_def
        fresh_file_rewound client_request_def send_def Let_def split: sum.splits option.splits)

lemma delete_eq:
  "delete self key w =
     (let b = bucket_name self; k = get_full_key self key in
      if \<not> accepts w (HeadObject b k) then (False, w)
      else if faults w (length (requests w)) \<noteq> None \<or> objects w (b, k) = None
      then (False, w\<lparr>requests := requests w @ [HeadObject b k]\<rparr>)
      else (False,
            w\<lparr>requests := requests w @ [HeadObject b k],
              logged := logged w @ [Warn ''Failed to delete key {key}'', LogException TypeError]\<rparr>))"
  by (auto simp: delete_def key_exists_eq delete_object_positional Let_def)

lemma add_eq:
  "add P self key v timeout w =
     (if \<not> accepts w (HeadObject (bucket_name self) (get_full_key self key))
      then set_value P self key v timeout w
      else if faults w (length (requests w)) = None
          \<and> objects w (bucket_name self, get_full_key self key) \<noteq> None
      then (Inr False,
            w\<lparr>requests := requests w @ [HeadObject (bucket_name self) (get_full_key self key)]\<rparr>)
      else set_value P self key v timeout
            (w\<lparr>requests := requests w @ [HeadObject (bucket_name self) (get_full_key self key)]\<rparr>))"
  by (auto simp: add_def key_exists_eq)

lemma accepts_scenario:
  "botocore_accepts (HeadObject ''cache-bucket'' ''app1:session-42'')"
  "botocore_accepts (GetObject ''cache-bucket'' ''app1:session-42'')"
  "botocore_accepts (PutObject ''cache-bucket'' ''app1:session-42'' d)"
  by (simp_all add: botocore_accepts_def valid_bucket_def)

lemma rejects_examples:
  "\<not> botocore_accepts (PutObject ''Bad_Bucket!'' ''k'' d)"
  "\<not> botocore_accepts (PutObject ''cache-bucket'' '''' d)"
  "\<not> botocore_accepts (HeadObject ''cache-bucket'' '''')"
  by (simp_all add: botocore_accepts_def valid_bucket_def)

lemma get_probe_fails_returns_None:
  "\<not> fst (key_exists self key w) \<Longrightarrow> get P self key w = (Inr None, snd (key_exists self key w))"
  by (auto simp: get_def split: prod.splits bool.splits)

lemma get_download_fails_returns_None:
  "key_exists self key w = (True, w1) \<Longrightarrow>
   download_fileobj [PStr (bucket_name self), PStr (get_full_key self key), PFile BytesIO] [] w1
     = (Inl e, w2) \<Longrightarrow>
   get P self key w
     = (Inr None, w2\<lparr>logged := logged w2 @ [Warn ''Failed to get key {key}'', LogException e]\<rparr>)"
  by (simp add: get_def)

lemma get_load_error_propagates:
  "accepts w (HeadObject (bucket_name self) (get_full_key self key)) \<Longrightarrow>
   accepts w (GetObject (bucket_name self) (get_full_key self key)) \<Longrightarrow>
   faults w (length (requests w)) = None \<Longrightarrow>
   faults w (Suc (length (requests w))) = None \<Longrightarrow>
   faults w (Suc (Suc (length (requests w)))) = None \<Longrightarrow>
   objects w (bucket_name self, get_full_key self key) = Some d \<Longrightarrow> loads P d = Inl e \<Longrightarrow>
     fst (get P self key w) = Inl e \<and> logged (snd (get P self key w)) = logged w"
  by (simp add: get_eq Let_def)

lemma delete_absent_key:
  "objects w (bucket_name self, get_full_key self key) = None \<Longrightarrow>
     fst (delete self key w) = False \<and> objects (snd (delete self key w)) = objects w"
  by (simp add: delete_eq Let_def)

lemma clear_with_key_returns_False:
  "clear self key w = (False, w) \<and> call_clear self [key'] [] w = (Inr False, w)
   \<and> call_clear self [] [(''key'', key')] w = (Inr False, w)"
  by (simp add: clear_def call_clear_def bind_def)

text \<open>
  When the upload of a first \<^verbatim>\<open>add\<close> fails, nothing is stored, so a second
  \<^verbatim>\<open>add\<close> finds no key and writes its own value.
\<close>

lemma second_add_after_failed_upload_writes:
  "fst (add toy_pickle app1 ''session-42'' (PyStr ''a'') None failing_upload_world) = Inr False
   \<and> objects (snd (add toy_pickle app1 ''session-42'' (PyStr ''b'') None
                  (snd (add toy_pickle app1 ''session-42'' (PyStr ''a'') None
                         failing_upload_world))))
       (''cache-bucket'', ''app1:session-42'') = Some ''Sb''"
  by (simp add: add_eq set_value_eq toy_pickle_def app1_def S3Cache_def get_full_key_def
        failing_upload_world_def empty_world_def accepts_scenario)

text \<open>
  A storage key that the client rejects: \<^verbatim>\<open>set\<close> returns False and \<^verbatim>\<open>get\<close>
  returns \<^verbatim>\<open>None\<close>, and no request is sent.
\<close>

lemma rejected_key_set_fails_get_absent:
  "fst (set_value toy_pickle bare [] (PyStr ''alice'') None empty_world) = Inr False
   \<and> requests (snd (set_value toy_pickle bare [] (PyStr ''alice'') None empty_world)) = []
   \<and> get toy_pickle bare []
        (snd (set_value toy_pickle bare [] (PyStr ''alice'') None empty_world))
      = (Inr None, snd (set_value toy_pickle bare [] (PyStr ''alice'') None empty_world))
   \<and> fst (set_value toy_pickle (S3Cache ''Bad_Bucket!'' ''app1:'' 300) ''k'' (PyStr ''alice'')
            None empty_world) = Inr False"
  by (simp add: set_value_eq get_eq Let_def toy_pickle_def bare_def S3Cache_def get_full_key_def
        empty_world_def botocore_accepts_def valid_bucket_def)

section \<open>The claims\<close>

text \<open>
  C1. \<^verbatim>\<open>get\<close> returns \<^verbatim>\<open>None\<close> when the probe fails
  (\<open>get_probe_fails_returns_None\<close>) and when the download raises, which it logs
  (\<open>get_download_fails_returns_None\<close>). The claim says the same of stored bytes
  that cannot be decoded, as the docstring does ("The value if it exists and is
  readable, else None"). The method does not do that: \<^verbatim>\<open>pickle.load\<close> runs in the
  \<^verbatim>\<open>else\<close> clause of the \<^verbatim>\<open>try\<close>, which the \<^verbatim>\<open>except\<close> does not cover, so the
  error leaves \<^verbatim>\<open>get\<close> and nothing is logged (\<open>get_load_error_propagates\<close>). Here
  on a reliable service whose object \<open>app1:session-42\<close> holds the bytes \<open>garbage\<close>:
  the call raises \<open>UnpicklingError\<close>.
\<close>

theorem get_corrupt_object_raises:
  "fst (get toy_pickle app1 ''session-42'' corrupt_world) = Inl UnpicklingError"
  by (simp add: get_eq Let_def toy_pickle_def app1_def S3Cache_def get_full_key_def
        corrupt_world_def empty_world_def accepts_scenario)

text \<open>
  C2. \<^verbatim>\<open>set\<close>, for every key, value, timeout, adapter and world. If encoding the
  value raises, the exception leaves the method and the world is as before: no upload
  was attempted and nothing was logged. If the value encodes to \<open>d\<close>, the method
  calls \<^verbatim>\<open>upload_fileobj\<close> with the rewound buffer holding \<open>d\<close>, the bucket and the
  storage key: when that call returns, the method returns True; when it raises any
  exception \<open>e'\<close>, the method returns False, having logged the warning and \<open>e'\<close>.
  Both happen: the upload returns when the client accepts the request and the service
  does not fail it, and then the object holds \<open>d\<close>; it raises when the service fails
  the request, and when the client rejects it, in which case nothing is sent.
\<close>

theorem set_value_outcomes:
  "(dumps P v = Inl e \<longrightarrow> set_value P self key v timeout w = (Inl e, w))
   \<and> (dumps P v = Inr d
        \<and> upload_fileobj
            [PFile \<lparr>buf = d, pos = 0\<rparr>, PStr (bucket_name self), PStr (get_full_key self key)] [] w
          = (Inr u, w1) \<longrightarrow>
        set_value P self key v timeout w = (Inr True, w1))
   \<and> (dumps P v = Inr d
        \<and> upload_fileobj
            [PFile \<lparr>buf = d, pos = 0\<rparr>, PStr (bucket_name self), PStr (get_full_key self key)] [] w
          = (Inl e', w1) \<longrightarrow>
        set_value P self key v timeout w =
          (Inr False,
           w1\<lparr>logged := logged w1 @ [Warn ''Error while setting key {key}'', LogException e']\<rparr>))
   \<and> (dumps P v = Inr d
        \<and> accepts w (PutObject (bucket_name self) (get_full_key self key) d)
        \<and> faults w (length (requests w)) = None \<longrightarrow>
        set_value P self key v timeout w =
          (Inr True,
           w\<lparr>requests := requests w @ [PutObject (bucket_name self) (get_full_key self key) d],
             objects := (objects w)((bucket_name self, get_full_key self key) \<mapsto> d)\<rparr>))
   \<and> (dumps P v = Inr d
        \<and> accepts w (PutObject (bucket_name self) (get_full_key self key) d)
        \<and> faults w (length (requests w)) = Some e' \<longrightarrow>
        set_value P self key v timeout w =
          (Inr False,
           w\<lparr>requests := requests w @ [PutObject (bucket_name self) (get_full_key self key) d],
             logged := logged w @ [Warn ''Error while setting key {key}'', LogException e']\<rparr>))
   \<and> (dumps P v = Inr d
        \<and> \<not> accepts w (PutObject (bucket_name self) (get_full_key self key) d) \<longrightarrow>
        set_value P self key v timeout w =
          (Inr False,
           w\<lparr>logged := logged w
                @ [Warn ''Error while setting key {key}'', LogException ParamValidationError]\<rparr>))"
proof -
  have 1: "dumps P v = Inl e \<longrightarrow> set_value P self key v timeout w = (Inl e, w)"
    by (simp add: set_value_eq)
  have 2: "dumps P v = Inr d
        \<and> upload_fileobj
            [PFile \<lparr>buf = d, pos = 0\<rparr>, PStr (bucket_name self), PStr (get_full_key self key)] [] w
          = (Inr u, w1) \<longrightarrow>
        set_value P self key v timeout w = (Inr True, w1)"
    by (simp add: set_value_def pickle_dump_def fresh_file_written)
  have 3: "dumps P v = Inr d
        \<and> upload_fileobj
            [PFile \<lparr>buf = d, pos = 0\<rparr>, PStr (bucket_name self), PStr (get_full_key self key)] [] w
          = (Inl e', w1) \<longrightarrow>
        set_value P self key v timeout w =
          (Inr False,
           w1\<lparr>logged := logged w1 @ [Warn ''Error while setting key {key}'', LogException e']\<rparr>)"
    by (simp add: set_value_def pickle_dump_def fresh_file_written)
  have 4: "dumps P v = Inr d
        \<and> accepts w (PutObject (bucket_name self) (get_full_key self key) d)
        \<and> faults w (length (requests w)) = None \<longrightarrow>
        set_value P self key v timeout w =
          (Inr True,
           w\<lparr>requests := requests w @ [PutObject (bucket_name self) (get_full_key self key) d],
             objects := (objects w)((bucket_name self, get_full_key self key) \<mapsto> d)\<rparr>)"
    by (simp add: set_value_eq)
  have 5: "dumps P v = Inr d
        \<and> accepts w (PutObject (bucket_name self) (get_full_key self key) d)
        \<and> faults w (length (requests w)) = Some e' \<longrightarrow>
        set_value P self key v timeout w =
          (Inr False,
           w\<lparr>requests := requests w @ [PutObject (bucket_name self) (get_full_key self key) d],
             logged := logged w @ [Warn ''Error while setting key {key}'', LogException e']\<rparr>)"
    by (simp add: set_value_eq)
  have 6: "dumps P v = Inr d
        \<and> \<not> accepts w (PutObject (bucket_name self) (get_full_key self key) d) \<longrightarrow>
        set_value P self key v timeout w =
          (Inr False,
           w\<lparr>logged := logged w
                @ [Warn ''Error while setting key {key}'', LogException ParamValidationError]\<rparr>)"
    by (simp add: set_value_eq)
  from 1 2 3 4 5 6 show ?thesis by blast
qed

theorem set_value_outcomes_witness:
  "dumps toy_pickle PyLambda = Inl PicklingError
   \<and> set_value toy_pickle app1 ''k'' PyLambda None empty_world = (Inl PicklingError, empty_world)
   \<and> dumps toy_pickle (PyStr ''alice'') = Inr ''Salice''
   \<and> upload_fileobj [PFile \<lparr>buf = ''Salice'', pos = 0\<rparr>, PStr (bucket_name app1),
         PStr (get_full_key app1 ''k'')] [] empty_world
       = (Inr (), snd (set_value toy_pickle app1 ''k'' (PyStr ''alice'') None empty_world))
   \<and> fst (set_value toy_pickle app1 ''k'' (PyStr ''alice'') None empty_world) = Inr True
   \<and> fst (upload_fileobj [PFile \<lparr>buf = ''Salice'', pos = 0\<rparr>, PStr (bucket_name app1),
         PStr (get_full_key app1 ''k'')] [] flaky_world) = Inl EndpointConnectionError
   \<and> fst (set_value toy_pickle app1 ''k'' (PyStr ''alice'') None flaky_world) = Inr False
   \<and> accepts empty_world (PutObject (bucket_name app1) (get_full_key app1 ''k'') ''Salice'')
   \<and> faults empty_world (length (requests empty_world)) = None
   \<and> set_value toy_pickle app1 ''k'' (PyStr ''alice'') None empty_world
       = (Inr True,
          empty_world\<lparr>requests := [PutObject ''cache-bucket'' ''app1:k'' ''Salice''],
            objects := [(''cache-bucket'', ''app1:k'') \<mapsto> ''Salice'']\<rparr>)
   \<and> faults flaky_world (length (requests flaky_world)) = Some EndpointConnectionError
   \<and> set_value toy_pickle app1 ''k'' (PyStr ''alice'') None flaky_world
       = (Inr False,
          flaky_world\<lparr>requests := [PutObject ''cache-bucket'' ''app1:k'' ''Salice''],
            logged := [Warn ''Error while setting key {key}'',
                       LogException EndpointConnectionError]\<rparr>)
   \<and> \<not> accepts empty_world (PutObject (bucket_name bare) (get_full_key bare []) ''Salice'')
   \<and> set_value toy_pickle bare [] (PyStr ''alice'') None empty_world
       = (Inr False,
          empty_world\<lparr>logged :=
            [Warn ''Error while setting key {key}'', LogException ParamValidationError]\<rparr>)"
proof -
  let ?up = "\<lambda>w. upload_fileobj [PFile \<lparr>buf = ''Salice'', pos = 0\<rparr>, PStr (bucket_name app1),
         PStr (get_full_key app1 ''k'')] [] w"
  have d0: "dumps toy_pickle PyLambda = Inl PicklingError"
    by (simp add: toy_pickle_def)
  have d1: "dumps toy_pickle (PyStr ''alice'') = Inr ''Salice''"
    by (simp add: toy_pickle_def)
  have acc: "accepts empty_world (PutObject (bucket_name app1) (get_full_key app1 ''k'') ''Salice'')"
    "accepts flaky_world (PutObject (bucket_name app1) (get_full_key app1 ''k'') ''Salice'')"
    by (simp_all add: empty_world_def flaky_world_def app1_def S3Cache_def get_full_key_def
          botocore_accepts_def valid_bucket_def)
  have rej: "\<not> accepts empty_world (PutObject (bucket_name bare) (get_full_key bare []) ''Salice'')"
    by (simp add: empty_world_def bare_def S3Cache_def get_full_key_def botocore_accepts_def)
  have f0: "faults empty_world (length (requests empty_world)) = None"
    by (simp add: empty_world_def)
  have f1: "faults flaky_world (length (requests flaky_world)) = Some EndpointConnectionError"
    by (simp add: flaky_world_def empty_world_def)
  have u0: "?up empty_world = (Inr (), snd (?up empty_world))"
    using acc(1) f0
    by (simp add: upload_fileobj_positional client_request_def send_def Let_def bytesio_read_def)
  have u1: "?up flaky_world = (Inl EndpointConnectionError, snd (?up flaky_world))"
    using acc(2) f1
    by (simp add: upload_fileobj_positional client_request_def send_def Let_def bytesio_read_def)
  have c1: "set_value toy_pickle app1 ''k'' PyLambda None empty_world
      = (Inl PicklingError, empty_world)"
    using d0 set_value_outcomes [of toy_pickle PyLambda PicklingError app1 "''k''" None empty_world]
    by blast
  have c2: "set_value toy_pickle app1 ''k'' (PyStr ''alice'') None empty_world
      = (Inr True, snd (?up empty_world))"
    using d1 u0
      set_value_outcomes [where P = toy_pickle and v = "PyStr ''alice''" and self = app1
        and key = "''k''" and timeout = None and w = empty_world and d = "''Salice''"
        and u = "()" and ?w1.0 = "snd (?up empty_world)"]
    by blast
  have c3: "set_value toy_pickle app1 ''k'' (PyStr ''alice'') None flaky_world
      = (Inr False,
         (snd (?up flaky_world))\<lparr>logged := logged (snd (?up flaky_world))
            @ [Warn ''Error while setting key {key}'', LogException EndpointConnectionError]\<rparr>)"
    using d1 u1
      set_value_outcomes [where P = toy_pickle and v = "PyStr ''alice''" and self = app1
        and key = "''k''" and timeout = None and w = flaky_world and d = "''Salice''"
        and e' = EndpointConnectionError and ?w1.0 = "snd (?up flaky_world)"]
    by blast
  have c4: "set_value toy_pickle app1 ''k'' (PyStr ''alice'') None empty_world
       = (Inr True,
          empty_world\<lparr>requests := [PutObject ''cache-bucket'' ''app1:k'' ''Salice''],
            objects := [(''cache-bucket'', ''app1:k'') \<mapsto> ''Salice'']\<rparr>)"
    using d1 acc(1) f0
      set_value_outcomes [where P = toy_pickle and v = "PyStr ''alice''" and self = app1
        and key = "''k''" and timeout = None and w = empty_world and d = "''Salice''"]
    by (simp add: app1_def S3Cache_def get_full_key_def empty_world_def)
  have c5: "set_value toy_pickle app1 ''k'' (PyStr ''alice'') None flaky_world
       = (Inr False,
          flaky_world\<lparr>requests := [PutObject ''cache-bucket'' ''app1:k'' ''Salice''],
            logged := [Warn ''Error while setting key {key}'',
                       LogException EndpointConnectionError]\<rparr>)"
    using d1 acc(2) f1
      set_value_outcomes [where P = toy_pickle and v = "PyStr ''alice''" and self = app1
        and key = "''k''" and timeout = None and w = flaky_world and d = "''Salice''"
        and e' = EndpointConnectionError]
    by (simp add: app1_def S3Cache_def get_full_key_def flaky_world_def empty_world_def)
  have g5: "fst (set_value toy_pickle app1 ''k'' (PyStr ''alice'') None empty_world) = Inr True"
    using c2 by (metis fst_conv)
  have g7: "fst (set_value toy_pickle app1 ''k'' (PyStr ''alice'') None flaky_world) = Inr False"
    using c3 by (metis fst_conv)
  have c6: "set_value toy_pickle bare [] (PyStr ''alice'') None empty_world
       = (Inr False,
          empty_world\<lparr>logged := logged empty_world
            @ [Warn ''Error while setting key {key}'', LogException ParamValidationError]\<rparr>)"
    using d1 rej
      set_value_outcomes [of toy_pickle "PyStr ''alice''" _ bare "[]" None empty_world "''Salice''"]
    by blast
  have l0: "logged empty_world = []"
    by (simp add: empty_world_def)
  from c2 have c2': "snd (set_value toy_pickle app1 ''k'' (PyStr ''alice'') None empty_world)
      = snd (?up empty_world)"
    by simp
  have g4: "?up empty_world
      = (Inr (), snd (set_value toy_pickle app1 ''k'' (PyStr ''alice'') None empty_world))"
    unfolding c2' by (rule u0)
  have g6: "fst (?up flaky_world) = Inl EndpointConnectionError"
    using u1 by (metis fst_conv)
  have g12: "set_value toy_pickle bare [] (PyStr ''alice'') None empty_world
       = (Inr False,
          empty_world\<lparr>logged :=
            [Warn ''Error while setting key {key}'', LogException ParamValidationError]\<rparr>)"
    using c6 unfolding l0 by simp
  from d0 c1 d1 g4 g5 g6 g7 acc(1) f0 c4 f1 c5 rej g12 show ?thesis
    by blast
qed

text \<open>
  C3. Round trip: when the serializer encodes \<open>v\<close> and decodes the result back to
  \<open>v\<close>, and the storage succeeds on every request (the client accepts the upload, the
  probe and the download for the storage key, and the service fails no request),
  \<^verbatim>\<open>set(k, v)\<close> returns True and the \<^verbatim>\<open>get(k)\<close> that follows returns \<open>v\<close>, for
  every key, timeout, adapter and earlier state of the service.
\<close>

theorem set_then_get_roundtrip:
  assumes "dumps P v = Inr d" and "loads P d = Inr v" and "\<forall>n. faults w n = None"
    and "accepts w (PutObject (bucket_name self) (get_full_key self k) d)"
    and "accepts w (HeadObject (bucket_name self) (get_full_key self k))"
    and "accepts w (GetObject (bucket_name self) (get_full_key self k))"
  shows "fst (set_value P self k v timeout w) = Inr True
         \<and> fst (get P self k (snd (set_value P self k v timeout w))) = Inr (Some v)"
  using assms by (simp add: set_value_eq get_eq Let_def)

theorem set_then_get_roundtrip_witness:
  "dumps toy_pickle (PyStr ''alice'') = Inr ''Salice''
   \<and> loads toy_pickle ''Salice'' = Inr (PyStr ''alice'')
   \<and> (\<forall>n. faults empty_world n = None)
   \<and> accepts empty_world (PutObject (bucket_name app1) (get_full_key app1 ''session-42'') ''Salice'')
   \<and> accepts empty_world (HeadObject (bucket_name app1) (get_full_key app1 ''session-42''))
   \<and> accepts empty_world (GetObject (bucket_name app1) (get_full_key app1 ''session-42''))
   \<and> fst (set_value toy_pickle app1 ''session-42'' (PyStr ''alice'') None empty_world) = Inr True
   \<and> fst (get toy_pickle app1 ''session-42''
             (snd (set_value toy_pickle app1 ''session-42'' (PyStr ''alice'') None empty_world)))
       = Inr (Some (PyStr ''alice''))"
proof -
  have d: "dumps toy_pickle (PyStr ''alice'') = Inr ''Salice''"
    by (simp add: toy_pickle_def)
  have l: "loads toy_pickle ''Salice'' = Inr (PyStr ''alice'')"
    by (simp add: toy_pickle_def)
  have f: "\<forall>n. faults empty_world n = None"
    by (simp add: empty_world_def)
  have a1: "accepts empty_world
      (PutObject (bucket_name app1) (get_full_key app1 ''session-42'') ''Salice'')"
    by (simp add: empty_world_def app1_def S3Cache_def get_full_key_def accepts_scenario)
  have a2: "accepts empty_world (HeadObject (bucket_name app1) (get_full_key app1 ''session-42''))"
    by (simp add: empty_world_def app1_def S3Cache_def get_full_key_def accepts_scenario)
  have a3: "accepts empty_world (GetObject (bucket_name app1) (get_full_key app1 ''session-42''))"
    by (simp add: empty_world_def app1_def S3Cache_def get_full_key_def accepts_scenario)
  from set_then_get_roundtrip [OF d l f a1 a2 a3, of None] d l f a1 a2 a3
  show ?thesis by blast
qed

text \<open>
  C4. \<^verbatim>\<open>delete\<close> never returns True: \<^verbatim>\<open>delete_object\<close> receives the bucket and
  the key as positional arguments and raises \<open>TypeError\<close> without sending a request,
  in every world; so \<^verbatim>\<open>delete\<close> returns False for every key and every world, the
  stored objects are the ones before the call, and for a key whose probe succeeds the
  warning and the \<open>TypeError\<close> are logged.
\<close>

theorem delete_never_true:
  "delete_object [PStr (bucket_name self), PStr (get_full_key self key)] [] w' = (Inl TypeError, w')
   \<and> fst (delete self key w) = False
   \<and> objects (snd (delete self key w)) = objects w
   \<and> delete self key w =
       (case key_exists self key w of
          (False, w1) \<Rightarrow> (False, w1)
        | (True, w1) \<Rightarrow>
            (False,
             w1\<lparr>logged := logged w1
                  @ [Warn ''Failed to delete key {key}'', LogException TypeError]\<rparr>))"
  by (auto simp: delete_eq key_exists_eq delete_object_positional Let_def)

text \<open>
  C5. For an absent key \<^verbatim>\<open>delete\<close> returns False and changes no object
  (\<open>delete_absent_key\<close>). For an existing key the claim, like the docstring
  ("Whether the key existed and has been deleted"), has a delete request sent, True
  returned when it succeeds, and the key absent afterwards. The method does not do
  that, for the reason of C4. Here on a reliable service whose object
  \<open>app1:session-42\<close> holds the encoding of \<open>old\<close>: \<^verbatim>\<open>delete\<close> returns False, the
  only request sent is the probe, the object is still there, and \<^verbatim>\<open>get\<close> still
  returns \<open>old\<close>.
\<close>

theorem delete_existing_key_fails:
  "fst (delete app1 ''session-42'' stale_world) = False
   \<and> objects (snd (delete app1 ''session-42'' stale_world)) (''cache-bucket'', ''app1:session-42'')
       = Some ''Sold''
   \<and> requests (snd (delete app1 ''session-42'' stale_world))
       = [HeadObject ''cache-bucket'' ''app1:session-42'']
   \<and> fst (get toy_pickle app1 ''session-42'' (snd (delete app1 ''session-42'' stale_world)))
       = Inr (Some (PyStr ''old''))"
  by (simp add: delete_eq get_eq Let_def toy_pickle_def app1_def S3Cache_def get_full_key_def
        stale_world_def empty_world_def accepts_scenario)

text \<open>
  The second sentence of C6, as it is written, fails in four ways. For a key that is
  already stored, both calls of \<^verbatim>\<open>add\<close> find the key and write nothing, so the
  stored value is the old one, not the first call's. When the first call's upload
  fails, or its value cannot be encoded, nothing is stored and the second call writes
  its own value. When the client rejects the storage key, nothing is ever stored.
\<close>

theorem second_add_on_stored_key_keeps_old_value:
  "objects (snd (add toy_pickle app1 ''session-42'' (PyStr ''b'') None
                  (snd (add toy_pickle app1 ''session-42'' (PyStr ''a'') None stale_world))))
     (''cache-bucket'', ''app1:session-42'') = Some ''Sold''
   \<and> dumps toy_pickle (PyStr ''a'') = Inr ''Sa''
   \<and> fst (get toy_pickle app1 ''session-42''
            (snd (add toy_pickle app1 ''session-42'' (PyStr ''b'') None
                   (snd (add toy_pickle app1 ''session-42'' (PyStr ''a'') None stale_world)))))
       \<noteq> Inr (Some (PyStr ''a''))
   \<and> fst (get toy_pickle app1 ''session-42''
            (snd (add toy_pickle app1 ''session-42'' (PyStr ''b'') None
                   (snd (add toy_pickle app1 ''session-42'' (PyStr ''a'') None
                          failing_upload_world)))))
       = Inr (Some (PyStr ''b''))
   \<and> fst (add toy_pickle app1 ''session-42'' PyLambda None empty_world) = Inl PicklingError
   \<and> objects (snd (add toy_pickle app1 ''session-42'' (PyStr ''b'') None
                    (snd (add toy_pickle app1 ''session-42'' PyLambda None empty_world))))
       (''cache-bucket'', ''app1:session-42'') = Some ''Sb''
   \<and> objects (snd (add toy_pickle bare [] (PyStr ''b'') None
                    (snd (add toy_pickle bare [] (PyStr ''a'') None empty_world))))
       (''cache-bucket'', []) = None"
  by (simp add: add_eq set_value_eq get_eq Let_def toy_pickle_def app1_def bare_def S3Cache_def
        get_full_key_def stale_world_def failing_upload_world_def empty_world_def
        accepts_scenario rejects_examples)

text \<open>
  C6, amended. When the probe succeeds, \<^verbatim>\<open>add\<close> returns False and leaves the
  objects as they were; when it fails, \<^verbatim>\<open>add\<close> is \<^verbatim>\<open>set\<close> with the same
  arguments, run after the probe. Consequently, when the key is not stored beforehand,
  \<open>v1\<close> encodes to \<open>d1\<close>, and every storage request succeeds (the client accepts
  the probe and the upload, and the service fails no request), \<^verbatim>\<open>add(k, v1)\<close>
  returns True, the \<^verbatim>\<open>add(k, v2)\<close> that follows returns False, and the object at
  the storage key holds \<open>d1\<close>.
\<close>

theorem add_does_not_overwrite:
  "(fst (key_exists self k w) \<longrightarrow>
      add P self k v timeout w = (Inr False, snd (key_exists self k w))
      \<and> objects (snd (add P self k v timeout w)) = objects w)
   \<and> (\<not> fst (key_exists self k w) \<longrightarrow>
        add P self k v timeout w = set_value P self k v timeout (snd (key_exists self k w)))
   \<and> ((\<forall>n. faults w n = None)
        \<and> accepts w (HeadObject (bucket_name self) (get_full_key self k))
        \<and> accepts w (PutObject (bucket_name self) (get_full_key self k) d1)
        \<and> objects w (bucket_name self, get_full_key self k) = None
        \<and> dumps P v1 = Inr d1 \<longrightarrow>
        fst (add P self k v1 t1 w) = Inr True
        \<and> fst (add P self k v2 t2 (snd (add P self k v1 t1 w))) = Inr False
        \<and> objects (snd (add P self k v2 t2 (snd (add P self k v1 t1 w))))
            (bucket_name self, get_full_key self k) = Some d1)"
proof -
  have 1: "fst (key_exists self k w) \<longrightarrow>
      add P self k v timeout w = (Inr False, snd (key_exists self k w))
      \<and> objects (snd (add P self k v timeout w)) = objects w"
    by (cases "key_exists self k w") (auto simp: add_def key_exists_eq split: if_splits)
  have 2: "\<not> fst (key_exists self k w) \<longrightarrow>
        add P self k v timeout w = set_value P self k v timeout (snd (key_exists self k w))"
    by (cases "key_exists self k w") (simp add: add_def)
  have 3: "(\<forall>n. faults w n = None)
        \<and> accepts w (HeadObject (bucket_name self) (get_full_key self k))
        \<and> accepts w (PutObject (bucket_name self) (get_full_key self k) d1)
        \<and> objects w (bucket_name self, get_full_key self k) = None
        \<and> dumps P v1 = Inr d1 \<longrightarrow>
        fst (add P self k v1 t1 w) = Inr True
        \<and> fst (add P self k v2 t2 (snd (add P self k v1 t1 w))) = Inr False
        \<and> objects (snd (add P self k v2 t2 (snd (add P self k v1 t1 w))))
            (bucket_name self, get_full_key self k) = Some d1"
    by (simp add: add_eq set_value_eq)
  from 1 2 3 show ?thesis by blast
qed

theorem add_does_not_overwrite_witness:
  "fst (key_exists app1 ''session-42'' stale_world)
   \<and> add toy_pickle app1 ''session-42'' (PyStr ''a'') None stale_world
       = (Inr False, snd (key_exists app1 ''session-42'' stale_world))
   \<and> \<not> fst (key_exists app1 ''session-42'' empty_world)
   \<and> add toy_pickle app1 ''session-42'' (PyStr ''a'') None empty_world
       = set_value toy_pickle app1 ''session-42'' (PyStr ''a'') None
           (snd (key_exists app1 ''session-42'' empty_world))
   \<and> (\<forall>n. faults empty_world n = None)
   \<and> accepts empty_world (HeadObject (bucket_name app1) (get_full_key app1 ''session-42''))
   \<and> accepts empty_world (PutObject (bucket_name app1) (get_full_key app1 ''session-42'') ''Sa'')
   \<and> objects empty_world (bucket_name app1, get_full_key app1 ''session-42'') = None
   \<and> dumps toy_pickle (PyStr ''a'') = Inr ''Sa''
   \<and> objects (snd (add toy_pickle app1 ''session-42'' (PyStr ''b'') None
                    (snd (add toy_pickle app1 ''session-42'' (PyStr ''a'') None empty_world))))
        (bucket_name app1, get_full_key app1 ''session-42'') = Some ''Sa''"
proof -
  have p1: "fst (key_exists app1 ''session-42'' stale_world)"
    by (simp add: key_exists_eq app1_def S3Cache_def get_full_key_def stale_world_def
          empty_world_def accepts_scenario)
  have p2: "\<not> fst (key_exists app1 ''session-42'' empty_world)"
    by (simp add: key_exists_eq empty_world_def)
  have p3: "(\<forall>n. faults empty_world n = None)
     \<and> accepts empty_world (HeadObject (bucket_name app1) (get_full_key app1 ''session-42''))
     \<and> accepts empty_world (PutObject (bucket_name app1) (get_full_key app1 ''session-42'') ''Sa'')
     \<and> objects empty_world (bucket_name app1, get_full_key app1 ''session-42'') = None
     \<and> dumps toy_pickle (PyStr ''a'') = Inr ''Sa''"
    by (simp add: empty_world_def toy_pickle_def app1_def S3Cache_def get_full_key_def
          accepts_scenario)
  have a1: "add toy_pickle app1 ''session-42'' (PyStr ''a'') None stale_world
       = (Inr False, snd (key_exists app1 ''session-42'' stale_world))"
    using p1
      add_does_not_overwrite [of app1 "''session-42''" stale_world toy_pickle "PyStr ''a''" None]
    by blast
  have a2: "add toy_pickle app1 ''session-42'' (PyStr ''a'') None empty_world
       = set_value toy_pickle app1 ''session-42'' (PyStr ''a'') None
           (snd (key_exists app1 ''session-42'' empty_world))"
    using p2
      add_does_not_overwrite [of app1 "''session-42''" empty_world toy_pickle "PyStr ''a''" None]
    by blast
  have a3: "objects (snd (add toy_pickle app1 ''session-42'' (PyStr ''b'') None
                    (snd (add toy_pickle app1 ''session-42'' (PyStr ''a'') None empty_world))))
        (bucket_name app1, get_full_key app1 ''session-42'') = Some ''Sa''"
    using p3
      add_does_not_overwrite [where self = app1 and k = "''session-42''" and w = empty_world
        and P = toy_pickle and ?v1.0 = "PyStr ''a''" and ?d1.0 = "''Sa''" and ?t1.0 = None
        and ?v2.0 = "PyStr ''b''" and ?t2.0 = None]
    by blast
  from p1 p2 p3 a1 a2 a3 show ?thesis by blast
qed

text \<open>
  C7. \<^verbatim>\<open>has\<close> returns \<^verbatim>\<open>None\<close> for every key and every world, whatever the probe
  finds, and leaves the world as \<^verbatim>\<open>_key_exists\<close> leaves it: the probe is sent, its
  result is dropped.
\<close>

theorem has_returns_nothing:
  "fst (has self key w) = None \<and> snd (has self key w) = snd (key_exists self key w)"
  by (simp add: has_def split: prod.splits)

text \<open>
  C8. The claim, the docstring ("Clears the cache", no parameter) and the base
  interface call \<^verbatim>\<open>clear()\<close> without arguments and expect False. The method is
  declared with a required parameter \<^verbatim>\<open>key\<close>, so that call raises \<open>TypeError\<close>
  before the body runs, in every world. (Called with a key, the method returns False
  and leaves the world as it was: \<open>clear_with_key_returns_False\<close>.)
\<close>

theorem clear_without_key_raises:
  "call_clear self [] [] w = (Inl TypeError, w)"
  by (simp add: call_clear_def bind_def)

text \<open>
  C9. The timeout has no effect: \<^verbatim>\<open>set\<close> and \<^verbatim>\<open>add\<close> return the same result and
  the same world for any two timeouts (\<open>None\<close> included). The constructor stores
  \<open>default_timeout\<close>, and no method's result or world depends on it.
\<close>

theorem timeout_is_ignored:
  "set_value P self key v t1 w = set_value P self key v t2 w
   \<and> add P self key v t1 w = add P self key v t2 w
   \<and> default_timeout (S3Cache bucket prefix t) = t
   \<and> set_value P (self\<lparr>default_timeout := t\<rparr>) key v t1 w = set_value P self key v t1 w
   \<and> add P (self\<lparr>default_timeout := t\<rparr>) key v t1 w = add P self key v t1 w
   \<and> get P (self\<lparr>default_timeout := t\<rparr>) key w = get P self key w
   \<and> delete (self\<lparr>default_timeout := t\<rparr>) key w = delete self key w
   \<and> has (self\<lparr>default_timeout := t\<rparr>) key w = has self key w
   \<and> clear (self\<lparr>default_timeout := t\<rparr>) key w = clear self key w"
  by (simp add: set_value_eq add_eq get_eq delete_eq has_def clear_def key_exists_eq
        get_full_key_def S3Cache_def Let_def cong: if_cong option.case_cong sum.case_cong)

text \<open>
  C10. The storage key is the prefix followed by the cache key; the constructor stores
  the prefix it is given; with the prefix \<open>app1:\<close> the cache key \<open>session-42\<close>
  becomes \<open>app1:session-42\<close>; and every request that \<^verbatim>\<open>_key_exists\<close>, \<^verbatim>\<open>get\<close>,
  \<^verbatim>\<open>delete\<close>, \<^verbatim>\<open>set\<close>, \<^verbatim>\<open>add\<close> and \<^verbatim>\<open>has\<close> send is for the adapter's bucket
  and that storage key.
\<close>

theorem storage_key_is_prefix_plus_key:
  "get_full_key self key = key_prefix self @ key
   \<and> key_prefix (S3Cache bucket prefix t) = prefix
   \<and> get_full_key (S3Cache bucket ''app1:'' t) ''session-42'' = ''app1:session-42''
   \<and> (\<forall>r \<in> set (issued w (snd (key_exists self key w))).
         request_target r = (bucket_name self, key_prefix self @ key))
   \<and> (\<forall>r \<in> set (issued w (snd (get P self key w))).
         request_target r = (bucket_name self, key_prefix self @ key))
   \<and> (\<forall>r \<in> set (issued w (snd (delete self key w))).
         request_target r = (bucket_name self, key_prefix self @ key))
   \<and> (\<forall>r \<in> set (issued w (snd (set_value P self key v timeout w))).
         request_target r = (bucket_name self, key_prefix self @ key))
   \<and> (\<forall>r \<in> set (issued w (snd (add P self key v timeout w))).
         request_target r = (bucket_name self, key_prefix self @ key))
   \<and> (\<forall>r \<in> set (issued w (snd (has self key w))).
         request_target r = (bucket_name self, key_prefix self @ key))"
proof -
  have k: "get_full_key self key = key_prefix self @ key"
    by (simp add: get_full_key_def)
  have c: "key_prefix (S3Cache bucket prefix t) = prefix"
    by (simp add: S3Cache_def)
  have e: "get_full_key (S3Cache bucket ''app1:'' t) ''session-42'' = ''app1:session-42''"
    by (simp add: S3Cache_def get_full_key_def)
  have 1: "\<forall>r \<in> set (issued w (snd (key_exists self key w))).
         request_target r = (bucket_name self, key_prefix self @ key)"
    by (simp add: issued_def key_exists_eq k)
  have 2: "\<forall>r \<in> set (issued w (snd (get P self key w))).
         request_target r = (bucket_name self, key_prefix self @ key)"
    by (auto simp: issued_def get_eq Let_def k split: option.splits sum.splits if_splits)
  have 3: "\<forall>r \<in> set (issued w (snd (delete self key w))).
         request_target r = (bucket_name self, key_prefix self @ key)"
    by (auto simp: issued_def delete_eq Let_def k split: if_splits)
  have 4: "\<forall>r \<in> set (issued w (snd (set_value P self key v timeout w))).
         request_target r = (bucket_name self, key_prefix self @ key)"
    by (auto simp: issued_def set_value_eq k split: option.splits sum.splits if_splits)
  have 5: "\<forall>r \<in> set (issued w (snd (add P self key v timeout w))).
         request_target r = (bucket_name self, key_prefix self @ key)"
    by (auto simp: issued_def add_eq set_value_eq k split: option.splits sum.splits if_splits)
  have 6: "\<forall>r \<in> set (issued w (snd (has self key w))).
         request_target r = (bucket_name self, key_prefix self @ key)"
    by (simp add: issued_def has_def key_exists_eq k)
  from k c e 1 2 3 4 5 6 show ?thesis by blast
qed

theorem storage_key_is_prefix_plus_key_witness:
  "HeadObject ''cache-bucket'' ''app1:session-42''
     \<in> set (issued stale_world (snd (key_exists app1 ''session-42'' stale_world)))
   \<and> GetObject ''cache-bucket'' ''app1:session-42''
     \<in> set (issued stale_world (snd (get toy_pickle app1 ''session-42'' stale_world)))
   \<and> HeadObject ''cache-bucket'' ''app1:session-42''
     \<in> set (issued stale_world (snd (delete app1 ''session-42'' stale_world)))
   \<and> PutObject ''cache-bucket'' ''app1:session-42'' ''Salice''
     \<in> set (issued empty_world
              (snd (set_value toy_pickle app1 ''session-42'' (PyStr ''alice'') None empty_world)))
   \<and> PutObject ''cache-bucket'' ''app1:session-42'' ''Salice''
     \<in> set (issued empty_world
              (snd (add toy_pickle app1 ''session-42'' (PyStr ''alice'') None empty_world)))
   \<and> HeadObject ''cache-bucket'' ''app1:session-42''
     \<in> set (issued stale_world (snd (has app1 ''session-42'' stale_world)))
   \<and> request_target (PutObject ''cache-bucket'' ''app1:session-42'' ''Salice'')
       = (bucket_name app1, key_prefix app1 @ ''session-42'')
   \<and> get_full_key app1 ''session-42'' = ''app1:session-42''"
  using storage_key_is_prefix_plus_key
      [of app1 "''session-42''" "''cache-bucket''" "''app1:''" 300 stale_world toy_pickle
        "PyStr ''alice''" None]
    storage_key_is_prefix_plus_key
      [of app1 "''session-42''" "''cache-bucket''" "''app1:''" 300 empty_world toy_pickle
        "PyStr ''alice''" None]
  by (simp add: issued_def key_exists_eq get_eq delete_eq set_value_eq add_eq has_def Let_def
        toy_pickle_def app1_def S3Cache_def get_full_key_def stale_world_def empty_world_def
        accepts_scenario)

end
